theory Spec2Isabelle
  imports Complex_Main "HOL-Library.AList"
begin

section \<open>Types of the recording subsystem (recording/types.ts)\<close>

text \<open>
  JavaScript numbers are modelled exactly: clock readings of \<^verbatim>\<open>Date.now()\<close> are
  integers (milliseconds), quantities in seconds are rationals, byte counts are naturals.
  Rounding of IEEE doubles is not part of the model. Strings are byte strings (UTF-8), so
  \<^verbatim>\<open>Buffer.byteLength(s, 'utf8')\<close> is \<open>length s\<close>.
\<close>

datatype RecordingMode = Always | OnFailure | Off

datatype RecordingFormat = V2

datatype StopReason = Explicit | SessionExit | MaxDuration | Inactivity

record RecordingOptions =
  mode_opt :: RecordingMode
  format_opt :: RecordingFormat
  outputDir_opt :: string
  idleTimeLimit_opt :: rat
  maxDuration_opt :: rat
  inactivityTimeout_opt :: rat

text \<open>\<^verbatim>\<open>Partial<RecordingOptions>\<close>: \<open>None\<close> is a key that is absent.\<close>

record PartialOptions =
  mode_po :: "RecordingMode option"
  format_po :: "RecordingFormat option"
  outputDir_po :: "string option"
  idleTimeLimit_po :: "rat option"
  maxDuration_po :: "rat option"
  inactivityTimeout_po :: "rat option"

record Env =
  SHELL_env :: "string option"
  TERM_env :: "string option"

record AsciicastHeader =
  version :: int
  width :: int
  height :: int
  timestamp :: int
  env :: "Env option"

type_synonym AsciicastEvent = "rat \<times> char \<times> string"

record RecordingMetadata =
  id_md :: string
  path_md :: string
  tempPath_md :: string
  startTime_md :: int
  endTime_md :: int
  durationMs_md :: int
  bytesWritten_md :: nat
  exitCode_md :: "int option"
  mode_md :: RecordingMode
  saved_md :: bool
  stopReason_md :: StopReason

section \<open>The platform: paths, number printing, JSON\<close>

text \<open>
  What the code takes from its runtime: the temporary directory, the environment variables
  and home directory read by \<^verbatim>\<open>getDefaultRecordDir\<close>, and the conversion of a number to
  its decimal text (used by template literals and by \<^verbatim>\<open>JSON.stringify\<close>).
\<close>

record platform =
  tmpdir :: string
  homedir :: string
  env_TERMINAL_MCP_RECORD_DIR :: "string option"
  env_XDG_STATE_HOME :: "string option"
  numStr :: "rat \<Rightarrow> string"

text \<open>\<^verbatim>\<open>path.join\<close> on POSIX, without the normalisation of \<^verbatim>\<open>.\<close>, \<^verbatim>\<open>..\<close> and doubled separators.\<close>

definition path_join :: "string \<Rightarrow> string \<Rightarrow> string" where
  "path_join a b = (if a = [] then b else if b = [] then a else a @ ''/'' @ b)"

text \<open>A JavaScript string is truthy when it is not empty.\<close>

definition truthy :: "string option \<Rightarrow> bool" where
  "truthy v = (case v of None \<Rightarrow> False | Some s \<Rightarrow> s \<noteq> [])"

definition getDefaultRecordDir :: "platform \<Rightarrow> string" where
  "getDefaultRecordDir c =
     (if truthy (env_TERMINAL_MCP_RECORD_DIR c) then the (env_TERMINAL_MCP_RECORD_DIR c)
      else
        let stateHome =
              (if truthy (env_XDG_STATE_HOME c) then the (env_XDG_STATE_HOME c)
               else path_join (path_join (homedir c) ''.local'') ''state'')
        in path_join (path_join stateHome ''terminal-mcp'') ''recordings'')"

abbreviation dq :: char where "dq \<equiv> CHR 0x22"
abbreviation bsl :: char where "bsl \<equiv> CHR 0x5C"
abbreviation nl :: char where "nl \<equiv> CHR 0x0A"

definition hexdigit :: "nat \<Rightarrow> char" where
  "hexdigit d = ''0123456789abcdef'' ! (d mod 16)"

text \<open>\<^verbatim>\<open>JSON.stringify\<close> of a string: quotes, backslashes and control characters are escaped.\<close>

definition json_escape :: "char \<Rightarrow> string" where
  "json_escape ch =
     (if ch = dq then [bsl, dq]
      else if ch = bsl then [bsl, bsl]
      else if ch = CHR 0x08 then [bsl, CHR ''b'']
      else if ch = CHR 0x0C then [bsl, CHR ''f'']
      else if ch = nl then [bsl, CHR ''n'']
      else if ch = CHR 0x0D then [bsl, CHR ''r'']
      else if ch = CHR 0x09 then [bsl, CHR ''t'']
      else if (of_char ch :: nat) < 32
        then [bsl, CHR ''u'', CHR ''0'', CHR ''0'',
              hexdigit (of_char ch div 16), hexdigit (of_char ch mod 16)]
      else [ch])"

definition json_string :: "string \<Rightarrow> string" where
  "json_string s = dq # concat (map json_escape s) @ [dq]"

definition json_field :: "string \<Rightarrow> string \<Rightarrow> string" where
  "json_field k v = json_string k @ '':'' @ v"

fun commas :: "string list \<Rightarrow> string" where
  "commas [] = []"
| "commas [x] = x"
| "commas (x # y # ys) = x @ '','' @ commas (y # ys)"

definition json_object :: "string list \<Rightarrow> string" where
  "json_object props = ''{'' @ commas props @ ''}''"

text \<open>A property whose value is \<^verbatim>\<open>undefined\<close> is left out by \<^verbatim>\<open>JSON.stringify\<close>.\<close>

definition json_opt_field :: "string \<Rightarrow> string option \<Rightarrow> string list" where
  "json_opt_field k v = (case v of None \<Rightarrow> [] | Some s \<Rightarrow> [json_field k (json_string s)])"

definition json_env :: "Env \<Rightarrow> string" where
  "json_env e = json_object (json_opt_field ''SHELL'' (SHELL_env e) @ json_opt_field ''TERM'' (TERM_env e))"

definition json_header :: "platform \<Rightarrow> AsciicastHeader \<Rightarrow> string" where
  "json_header c h =
     json_object
       ([json_field ''version'' (numStr c (of_int (version h))),
         json_field ''width'' (numStr c (of_int (width h))),
         json_field ''height'' (numStr c (of_int (height h))),
         json_field ''timestamp'' (numStr c (of_int (timestamp h)))]
        @ (case env h of None \<Rightarrow> [] | Some e \<Rightarrow> [json_field ''env'' (json_env e)]))"

definition json_event :: "platform \<Rightarrow> AsciicastEvent \<Rightarrow> string" where
  "json_event c ev =
     (case ev of (elapsed, kind, data) \<Rightarrow>
        ''['' @ numStr c elapsed @ '','' @ json_string [kind] @ '','' @ json_string data @ '']'')"

definition stopReason_text :: "StopReason \<Rightarrow> string" where
  "stopReason_text s =
     (case s of Explicit \<Rightarrow> ''explicit'' | SessionExit \<Rightarrow> ''session_exit''
      | MaxDuration \<Rightarrow> ''max_duration'' | Inactivity \<Rightarrow> ''inactivity'')"

text \<open>\<^verbatim>\<open>JSON.stringify(meta, null, 2)\<close>: one property per line, indented by two spaces.\<close>

definition json_meta ::
  "platform \<Rightarrow> int option \<Rightarrow> int \<Rightarrow> int \<Rightarrow> int \<Rightarrow> nat \<Rightarrow> StopReason \<Rightarrow> string" where
  "json_meta c exitCode durationMs startTime endTime bytesWritten stopReason =
     ''{'' @ [nl]
     @ ''  '' @ json_string ''exitCode'' @ '': ''
         @ (case exitCode of None \<Rightarrow> ''null'' | Some n \<Rightarrow> numStr c (of_int n)) @ '','' @ [nl]
     @ ''  '' @ json_string ''durationMs'' @ '': '' @ numStr c (of_int durationMs) @ '','' @ [nl]
     @ ''  '' @ json_string ''startTime'' @ '': '' @ numStr c (of_int startTime) @ '','' @ [nl]
     @ ''  '' @ json_string ''endTime'' @ '': '' @ numStr c (of_int endTime) @ '','' @ [nl]
     @ ''  '' @ json_string ''bytesWritten'' @ '': '' @ numStr c (of_nat bytesWritten) @ '','' @ [nl]
     @ ''  '' @ json_string ''stopReason'' @ '': '' @ json_string (stopReason_text stopReason) @ [nl]
     @ ''}''"

section \<open>The file system\<close>

text \<open>
  A file system is a finite map from paths to contents. Three faults are modelled: a missing
  file (\<open>ENOENT\<close>), a rename across devices (\<open>EXDEV\<close>; \<open>device\<close> gives the device a
  path is on), and an I/O error on the paths in \<open>faulty\<close>, where a stream write is lost and
  closing the stream reports the error. Directories, permissions and quotas are not modelled, so
  \<^verbatim>\<open>mkdirSync\<close> and \<^verbatim>\<open>writeFileSync\<close> succeed.
\<close>

record filesys =
  files :: "string \<rightharpoonup> string"
  faulty :: "string set"
  device :: "string \<Rightarrow> nat"

datatype error =
    AlreadyStarted
  | AlreadyFinalized
  | ENOENT string
  | EXDEV string string
  | EIO string

definition renameSync :: "string \<Rightarrow> string \<Rightarrow> filesys \<Rightarrow> error + filesys" where
  "renameSync src dst fs =
     (case files fs src of
        None \<Rightarrow> Inl (ENOENT src)
      | Some content \<Rightarrow>
          if device fs src \<noteq> device fs dst then Inl (EXDEV src dst)
          else Inr (fs\<lparr>files := ((files fs)(src := None))(dst \<mapsto> content)\<rparr>))"

definition copyFileSync :: "string \<Rightarrow> string \<Rightarrow> filesys \<Rightarrow> error + filesys" where
  "copyFileSync src dst fs =
     (case files fs src of
        None \<Rightarrow> Inl (ENOENT src)
      | Some content \<Rightarrow> Inr (fs\<lparr>files := (files fs)(dst \<mapsto> content)\<rparr>))"

definition unlinkSync :: "string \<Rightarrow> filesys \<Rightarrow> error + filesys" where
  "unlinkSync p fs =
     (case files fs p of
        None \<Rightarrow> Inl (ENOENT p)
      | Some _ \<Rightarrow> Inr (fs\<lparr>files := (files fs)(p := None)\<rparr>))"

definition writeFileSync :: "string \<Rightarrow> string \<Rightarrow> filesys \<Rightarrow> filesys" where
  "writeFileSync p data fs = fs\<lparr>files := (files fs)(p \<mapsto> data)\<rparr>"

text \<open>
  A write stream is known by the path it was opened on. Opening with flag \<^verbatim>\<open>w\<close> creates
  or truncates the file. A write appends to the file; it never throws: on a faulty path the
  data is lost, and when the file has been unlinked the data goes to a file nobody can see.
\<close>

type_synonym WriteStream = string

definition createWriteStream :: "string \<Rightarrow> filesys \<Rightarrow> WriteStream \<times> filesys" where
  "createWriteStream p fs = (p, fs\<lparr>files := (files fs)(p \<mapsto> [])\<rparr>)"

definition stream_write :: "WriteStream \<Rightarrow> string \<Rightarrow> filesys \<Rightarrow> filesys" where
  "stream_write ws data fs =
     (if ws \<in> faulty fs then fs
      else case files fs ws of
             None \<Rightarrow> fs
           | Some old \<Rightarrow> fs\<lparr>files := (files fs)(ws \<mapsto> old @ data)\<rparr>)"

definition stream_end :: "WriteStream \<Rightarrow> filesys \<Rightarrow> error + unit" where
  "stream_end ws fs = (if ws \<in> faulty fs then Inl (EIO ws) else Inr ())"

section \<open>The Recorder (recording/recorder.ts)\<close>

text \<open>
  The fields of the class, under their source names (\<open>id\<close> is \<open>id_r\<close>). A timer handle is
  the wall-clock instant, in milliseconds, at which its callback is due; \<open>None\<close> is
  \<^verbatim>\<open>null\<close>. The auto-finalize callback is an effect outside the recorder: the field only
  says whether one is registered.
\<close>

type_synonym Timer = rat

record Recorder =
  id_r :: string
  mode :: RecordingMode
  format :: RecordingFormat
  outputDir :: string
  tempPath :: string
  finalPath :: string
  writeStream :: "WriteStream option"
  startTime :: int
  bytesWritten :: nat
  finalized :: bool
  idleTimeLimit :: rat
  lastEventTime :: int
  adjustedElapsed :: rat
  maxDuration :: rat
  inactivityTimeout :: rat
  maxDurationTimer :: "Timer option"
  inactivityTimer :: "Timer option"
  stopReason :: StopReason
  onAutoFinalize :: bool

text \<open>\<^verbatim>\<open>setTimeout(f, delay)\<close> called at the instant \<open>now\<close>.\<close>

definition setTimeout :: "int \<Rightarrow> rat \<Rightarrow> Timer" where
  "setTimeout now delay = of_int now + delay"

text \<open>The constructor; \<open>now\<close> is its reading of \<^verbatim>\<open>Date.now()\<close>.\<close>

definition new_Recorder ::
  "platform \<Rightarrow> int \<Rightarrow> string \<Rightarrow> RecordingMode \<Rightarrow> string \<Rightarrow> RecordingFormat
     \<Rightarrow> rat \<Rightarrow> rat \<Rightarrow> rat \<Rightarrow> Recorder" where
  "new_Recorder c now ident md outDir fmt idleLimit maxDur inactTimeout =
     (let filename = ''terminal-'' @ numStr c (of_int now) @ ''-'' @ ident @ ''.cast''
      in \<lparr> id_r = ident, mode = md, format = fmt, outputDir = outDir,
           tempPath = path_join (tmpdir c) (''terminal-mcp-recording-'' @ ident @ ''.cast''),
           finalPath = path_join outDir filename,
           writeStream = None, startTime = 0, bytesWritten = 0, finalized = False,
           idleTimeLimit = idleLimit, lastEventTime = 0, adjustedElapsed = 0,
           maxDuration = maxDur, inactivityTimeout = inactTimeout,
           maxDurationTimer = None, inactivityTimer = None,
           stopReason = Explicit, onAutoFinalize = False \<rparr>)"

definition writeLine :: "string \<Rightarrow> Recorder \<times> filesys \<Rightarrow> Recorder \<times> filesys" where
  "writeLine line s =
     (case s of (r, fs) \<Rightarrow>
        (case writeStream r of
           None \<Rightarrow> (r, fs)
         | Some ws \<Rightarrow>
             let data = line @ [nl]
             in (r\<lparr>bytesWritten := bytesWritten r + length data\<rparr>, stream_write ws data fs)))"

definition getElapsedSeconds :: "int \<Rightarrow> Recorder \<Rightarrow> rat \<times> Recorder" where
  "getElapsedSeconds now r =
     (if lastEventTime r = 0
      then let r1 = r\<lparr>lastEventTime := now,
                       adjustedElapsed := of_int (now - startTime r) / 1000\<rparr>
           in (adjustedElapsed r1, r1)
      else let idleTime = of_int (now - lastEventTime r) / 1000;
               r1 = (if idleTimeLimit r > 0 \<and> idleTime > idleTimeLimit r
                     then r\<lparr>adjustedElapsed := adjustedElapsed r + idleTimeLimit r\<rparr>
                     else r\<lparr>adjustedElapsed := adjustedElapsed r + idleTime\<rparr>);
               r2 = r1\<lparr>lastEventTime := now\<rparr>
           in (adjustedElapsed r2, r2))"

definition start ::
  "platform \<Rightarrow> int \<Rightarrow> int \<Rightarrow> int \<Rightarrow> Env option \<Rightarrow> Recorder \<times> filesys
     \<Rightarrow> (error + unit) \<times> Recorder \<times> filesys" where
  "start c now w h e s =
     (case s of (r, fs) \<Rightarrow>
        if writeStream r \<noteq> None then (Inl AlreadyStarted, (r, fs))
        else
          let r1 = r\<lparr>startTime := now\<rparr>;
              (ws, fs1) = createWriteStream (tempPath r1) fs;
              r2 = r1\<lparr>writeStream := Some ws\<rparr>;
              header = \<lparr> version = 2, width = w, height = h,
                         timestamp = startTime r2 div 1000, env = e \<rparr>;
              (r3, fs2) = writeLine (json_header c header) (r2, fs1);
              r4 = (if maxDuration r3 > 0
                    then r3\<lparr>maxDurationTimer := Some (setTimeout now (maxDuration r3 * 1000))\<rparr>
                    else r3);
              r5 = (if inactivityTimeout r4 > 0
                    then r4\<lparr>inactivityTimer := Some (setTimeout now (inactivityTimeout r4 * 1000))\<rparr>
                    else r4)
          in (Inr (), (r5, fs2)))"

definition recordOutput ::
  "platform \<Rightarrow> int \<Rightarrow> string \<Rightarrow> Recorder \<times> filesys \<Rightarrow> Recorder \<times> filesys" where
  "recordOutput c now data s =
     (case s of (r, fs) \<Rightarrow>
        if writeStream r = None \<or> finalized r then (r, fs)
        else
          let r1 = (if inactivityTimeout r > 0 \<and> inactivityTimer r \<noteq> None
                    then r\<lparr>inactivityTimer := Some (setTimeout now (inactivityTimeout r * 1000))\<rparr>
                    else r);
              (elapsed, r2) = getElapsedSeconds now r1
          in writeLine (json_event c (elapsed, CHR ''o'', data)) (r2, fs))"

definition recordResize ::
  "platform \<Rightarrow> int \<Rightarrow> int \<Rightarrow> int \<Rightarrow> Recorder \<times> filesys \<Rightarrow> Recorder \<times> filesys" where
  "recordResize c now cols rows s =
     (case s of (r, fs) \<Rightarrow>
        if writeStream r = None \<or> finalized r then (r, fs)
        else
          let (elapsed, r1) = getElapsedSeconds now r
          in writeLine
               (json_event c
                  (elapsed, CHR ''r'', numStr c (of_int cols) @ ''x'' @ numStr c (of_int rows)))
               (r1, fs))"

definition clearTimers :: "Recorder \<Rightarrow> Recorder" where
  "clearTimers r =
     (let r1 = (if maxDurationTimer r \<noteq> None then r\<lparr>maxDurationTimer := None\<rparr> else r)
      in if inactivityTimer r1 \<noteq> None then r1\<lparr>inactivityTimer := None\<rparr> else r1)"

definition shouldSave :: "RecordingMode \<Rightarrow> int option \<Rightarrow> bool" where
  "shouldSave md exitCode =
     (md = Always \<or> (md = OnFailure \<and> exitCode \<noteq> Some 0 \<and> exitCode \<noteq> None))"

text \<open>\<^verbatim>\<open>finalPath.replace(/\.cast$/, '.meta.json')\<close>\<close>

definition metaPathOf :: "string \<Rightarrow> string" where
  "metaPathOf p =
     (if length p \<ge> 5 \<and> drop (length p - 5) p = ''.cast''
      then take (length p - 5) p @ ''.meta.json'' else p)"

text \<open>
  \<open>finalize\<close> sets the \<open>finalized\<close> flag before its first \<^verbatim>\<open>await\<close>, so nothing that
  runs while it waits can act on the recorder; the model runs it as one step. An error is
  returned together with the state reached when it was raised.
\<close>

definition finalize ::
  "platform \<Rightarrow> int \<Rightarrow> int option \<Rightarrow> StopReason option \<Rightarrow> Recorder \<times> filesys
     \<Rightarrow> (error + RecordingMetadata) \<times> Recorder \<times> filesys" where
  "finalize c now exitCode reason s =
     (case s of (r0, fs) \<Rightarrow>
        if finalized r0 then (Inl AlreadyFinalized, (r0, fs))
        else
          let r1 = r0\<lparr>finalized := True\<rparr>;
              endTime = now;
              durationMs = endTime - startTime r1;
              r = clearTimers r1;
              finalStopReason = (case reason of Some x \<Rightarrow> x | None \<Rightarrow> stopReason r);
              metadata = (\<lambda>isSaved p.
                 \<lparr> id_md = id_r r, path_md = (if isSaved then p else []),
                   tempPath_md = tempPath r, startTime_md = startTime r, endTime_md = endTime,
                   durationMs_md = durationMs, bytesWritten_md = bytesWritten r,
                   exitCode_md = exitCode, mode_md = mode r, saved_md = isSaved,
                   stopReason_md = finalStopReason \<rparr>)
          in
          (case (case writeStream r of None \<Rightarrow> Inr () | Some ws \<Rightarrow> stream_end ws fs) of
            Inl err \<Rightarrow> (Inl err, (r, fs))
          | Inr _ \<Rightarrow>
              if shouldSave (mode r) exitCode then
                (case
                   (case renameSync (tempPath r) (finalPath r) fs of
                      Inr fs1 \<Rightarrow> (None, fs1)
                    | Inl _ \<Rightarrow>
                        (case copyFileSync (tempPath r) (finalPath r) fs of
                           Inl err \<Rightarrow> (Some err, fs)
                         | Inr fs1 \<Rightarrow>
                             (case unlinkSync (tempPath r) fs1 of
                                Inl err \<Rightarrow> (Some err, fs1)
                              | Inr fs2 \<Rightarrow> (None, fs2))))
                 of
                   (Some err, fs1) \<Rightarrow> (Inl err, (r, fs1))
                 | (None, fs1) \<Rightarrow>
                     let metaPath = metaPathOf (finalPath r);
                         fs2 = writeFileSync metaPath
                                 (json_meta c exitCode durationMs (startTime r) endTime
                                    (bytesWritten r) finalStopReason) fs1
                     in (Inr (metadata True (finalPath r)), (r, fs2)))
              else
                let fs1 = (case unlinkSync (tempPath r) fs of Inl _ \<Rightarrow> fs | Inr fs' \<Rightarrow> fs')
                in (Inr (metadata False (tempPath r)), (r, fs1))))"

definition isActive :: "Recorder \<Rightarrow> bool" where
  "isActive r = (writeStream r \<noteq> None \<and> \<not> finalized r)"

text \<open>
  The timer callback. The result carries the metadata handed to the registered callback,
  if there is one.
\<close>

definition autoFinalize ::
  "platform \<Rightarrow> int \<Rightarrow> StopReason \<Rightarrow> Recorder \<times> filesys
     \<Rightarrow> (error + RecordingMetadata option) \<times> Recorder \<times> filesys" where
  "autoFinalize c now reason s =
     (case s of (r, fs) \<Rightarrow>
        if finalized r then (Inr None, (r, fs))
        else
          (case finalize c now None (Some reason) (r\<lparr>stopReason := reason\<rparr>, fs) of
            (Inl err, s1) \<Rightarrow> (Inl err, s1)
          | (Inr metadata, s1) \<Rightarrow>
              (Inr (if onAutoFinalize (fst s1) then Some metadata else None), s1)))"

definition setOnAutoFinalize :: "Recorder \<Rightarrow> Recorder" where
  "setOnAutoFinalize r = r\<lparr>onAutoFinalize := True\<rparr>"

section \<open>The RecordingManager (recording/manager.ts)\<close>

text \<open>
  The registry is a JavaScript \<^verbatim>\<open>Map\<close>: keys are unique and iteration follows insertion
  order, so it is an association list, written with \<open>AList.update\<close> (replace in place or
  append) and \<open>AList.delete\<close>. The recorder objects live in the registry; a method call on
  the recorder registered under an id updates that entry.
\<close>

record RecordingManager =
  recordings :: "(string \<times> Recorder) list"
  defaultOptions :: RecordingOptions

text \<open>\<^verbatim>\<open>options?.field ?? fallback\<close>\<close>

definition orDefault :: "PartialOptions option \<Rightarrow> (PartialOptions \<Rightarrow> 'a option) \<Rightarrow> 'a \<Rightarrow> 'a" where
  "orDefault options field fallback =
     (case options of
        None \<Rightarrow> fallback
      | Some ov \<Rightarrow> (case field ov of None \<Rightarrow> fallback | Some v \<Rightarrow> v))"

definition new_RecordingManager :: "platform \<Rightarrow> PartialOptions option \<Rightarrow> RecordingManager" where
  "new_RecordingManager c options =
     \<lparr> recordings = [],
       defaultOptions =
         \<lparr> mode_opt = orDefault options mode_po Off,
           format_opt = orDefault options format_po V2,
           outputDir_opt = orDefault options outputDir_po (getDefaultRecordDir c),
           idleTimeLimit_opt = orDefault options idleTimeLimit_po 2,
           maxDuration_opt = orDefault options maxDuration_po 3600,
           inactivityTimeout_opt = orDefault options inactivityTimeout_po 600 \<rparr> \<rparr>"

text \<open>
  \<open>ident\<close> is the value of \<^verbatim>\<open>generateId()\<close> (sixteen random hex digits). The spread
  \<^verbatim>\<open>{...defaultOptions, ...options}\<close> takes every key present in \<open>options\<close>.
\<close>

definition createRecording ::
  "platform \<Rightarrow> int \<Rightarrow> string \<Rightarrow> PartialOptions option \<Rightarrow> RecordingManager
     \<Rightarrow> Recorder \<times> RecordingManager" where
  "createRecording c now ident options mgr =
     (let d = defaultOptions mgr;
          mergedOptions =
            \<lparr> mode_opt = orDefault options mode_po (mode_opt d),
              format_opt = orDefault options format_po (format_opt d),
              outputDir_opt = orDefault options outputDir_po (outputDir_opt d),
              idleTimeLimit_opt = orDefault options idleTimeLimit_po (idleTimeLimit_opt d),
              maxDuration_opt = orDefault options maxDuration_po (maxDuration_opt d),
              inactivityTimeout_opt =
                orDefault options inactivityTimeout_po (inactivityTimeout_opt d) \<rparr>;
          recorder =
            new_Recorder c now ident (mode_opt mergedOptions) (outputDir_opt mergedOptions)
              (format_opt mergedOptions) (idleTimeLimit_opt mergedOptions)
              (maxDuration_opt mergedOptions) (inactivityTimeout_opt mergedOptions)
      in (recorder, mgr\<lparr>recordings := AList.update ident recorder (recordings mgr)\<rparr>))"

definition getRecording :: "RecordingManager \<Rightarrow> string \<Rightarrow> Recorder option" where
  "getRecording mgr ident = map_of (recordings mgr) ident"

definition hasRecording :: "RecordingManager \<Rightarrow> string \<Rightarrow> bool" where
  "hasRecording mgr ident = (map_of (recordings mgr) ident \<noteq> None)"



text \<open>
  The loop \<^verbatim>\<open>for (const recorder of this.getActiveRecordings()) recorder.op(...)\<close>: the
  operation runs, in registry order, on each recorder that is active. A call on one recorder
  changes no other recorder, so testing \<open>isActive\<close> when the entry is reached selects the
  same recorders as the list taken before the loop. The loop has no exception handler; the
  recorder operations it is used with have no throwing path.
\<close>

fun forActive ::
  "(Recorder \<times> filesys \<Rightarrow> Recorder \<times> filesys) \<Rightarrow> (string \<times> Recorder) list \<Rightarrow> filesys
     \<Rightarrow> (string \<times> Recorder) list \<times> filesys" where
  "forActive op [] fs = ([], fs)"
| "forActive op ((k, r) # rest) fs =
     (if isActive r
      then let (r', fs1) = op (r, fs);
               (rest', fs2) = forActive op rest fs1
           in ((k, r') # rest', fs2)
      else let (rest', fs2) = forActive op rest fs
           in ((k, r) # rest', fs2))"



text \<open>
  When \<open>finalize\<close> throws, \<^verbatim>\<open>delete\<close> is not reached: the entry stays, holding the
  recorder as \<open>finalize\<close> left it.
\<close>

definition finalizeRecording ::
  "platform \<Rightarrow> int \<Rightarrow> string \<Rightarrow> int option \<Rightarrow> StopReason option
     \<Rightarrow> RecordingManager \<times> filesys
     \<Rightarrow> (error + RecordingMetadata option) \<times> RecordingManager \<times> filesys" where
  "finalizeRecording c now ident exitCode reason s =
     (case s of (mgr, fs) \<Rightarrow>
        (case map_of (recordings mgr) ident of
           None \<Rightarrow> (Inr None, (mgr, fs))
         | Some recorder \<Rightarrow>
             (case finalize c now exitCode reason (recorder, fs) of
                (Inl err, (r', fs')) \<Rightarrow>
                  (Inl err, (mgr\<lparr>recordings := AList.update ident r' (recordings mgr)\<rparr>, fs'))
              | (Inr metadata, (r', fs')) \<Rightarrow>
                  (Inr (Some metadata),
                   (mgr\<lparr>recordings := AList.delete ident (recordings mgr)\<rparr>, fs')))))"

text \<open>
  The loop of \<open>finalizeAll\<close> over the entries of the map: an active recorder is finalized
  and its metadata pushed, and every entry visited is deleted. When a \<open>finalize\<close> throws
  the loop ends there, and the entries not yet deleted remain.
\<close>

fun finalizeEach ::
  "platform \<Rightarrow> int \<Rightarrow> int option \<Rightarrow> StopReason \<Rightarrow> (string \<times> Recorder) list \<Rightarrow> filesys
     \<Rightarrow> RecordingMetadata list
     \<Rightarrow> (error + RecordingMetadata list) \<times> (string \<times> Recorder) list \<times> filesys" where
  "finalizeEach c now exitCode reason [] fs results = (Inr results, ([], fs))"
| "finalizeEach c now exitCode reason ((k, recorder) # rest) fs results =
     (if isActive recorder
      then (case finalize c now exitCode (Some reason) (recorder, fs) of
              (Inl err, (r', fs')) \<Rightarrow> (Inl err, ((k, r') # rest, fs'))
            | (Inr metadata, (r', fs')) \<Rightarrow>
                finalizeEach c now exitCode reason rest fs' (results @ [metadata]))
      else finalizeEach c now exitCode reason rest fs results)"

definition finalizeAll ::
  "platform \<Rightarrow> int \<Rightarrow> int option \<Rightarrow> StopReason option \<Rightarrow> RecordingManager \<times> filesys
     \<Rightarrow> (error + RecordingMetadata list) \<times> RecordingManager \<times> filesys" where
  "finalizeAll c now exitCode reason s =
     (case s of (mgr, fs) \<Rightarrow>
        let stopReason = (case reason of None \<Rightarrow> SessionExit | Some x \<Rightarrow> x);
            (res, rs, fs') = finalizeEach c now exitCode stopReason (recordings mgr) fs []
        in (res, (mgr\<lparr>recordings := rs\<rparr>, fs')))"

definition getDefaultMode :: "RecordingManager \<Rightarrow> RecordingMode" where
  "getDefaultMode mgr = mode_opt (defaultOptions mgr)"

definition getDefaultOutputDir :: "RecordingManager \<Rightarrow> string" where
  "getDefaultOutputDir mgr = outputDir_opt (defaultOptions mgr)"

definition isAutoRecordingEnabled :: "RecordingManager \<Rightarrow> bool" where
  "isAutoRecordingEnabled mgr = (mode_opt (defaultOptions mgr) \<noteq> Off)"

text \<open>
  A timer of the recorder registered under \<open>ident\<close> fires: its callback runs
  \<open>autoFinalize\<close> on that recorder object. The callback has no access to the registry.
\<close>

definition timerFires ::
  "platform \<Rightarrow> int \<Rightarrow> StopReason \<Rightarrow> string \<Rightarrow> RecordingManager \<times> filesys
     \<Rightarrow> (error + RecordingMetadata option) \<times> RecordingManager \<times> filesys" where
  "timerFires c now reason ident s =
     (case s of (mgr, fs) \<Rightarrow>
        (case map_of (recordings mgr) ident of
           None \<Rightarrow> (Inr None, (mgr, fs))
         | Some recorder \<Rightarrow>
             (case autoFinalize c now reason (recorder, fs) of
                (res, (r', fs')) \<Rightarrow>
                  (res, (mgr\<lparr>recordings := AList.update ident r' (recordings mgr)\<rparr>, fs')))))"

section \<open>A sample platform and file system\<close>

text \<open>
  Concrete inputs on which the model is run. The sample platform prints every number as
  \<open>0\<close>; the sample file system is empty, without faults, on a single device.
\<close>

definition sample_platform :: platform where
  "sample_platform =
     \<lparr> tmpdir = ''/tmp'', homedir = ''/home/u'', env_TERMINAL_MCP_RECORD_DIR = None,
       env_XDG_STATE_HOME = None, numStr = (\<lambda>q. ''0'') \<rparr>"

definition empty_fs :: filesys where
  "empty_fs = \<lparr> files = Map.empty, faulty = {}, device = (\<lambda>p. 0) \<rparr>"

text \<open>A recorder created at instant 900 and started at instant 1000 on an 80 by 24 terminal.\<close>

definition sample_started :: "RecordingMode \<Rightarrow> Recorder \<times> filesys" where
  "sample_started md =
     snd (start sample_platform 1000 80 24 None
            (new_Recorder sample_platform 900 ''ab'' md ''/out'' V2 2 3600 600, empty_fs))"

text \<open>Options that override nothing: no options at all, or an object without keys.\<close>

definition noOverrides :: "PartialOptions option \<Rightarrow> bool" where
  "noOverrides options =
     (case options of
        None \<Rightarrow> True
      | Some ov \<Rightarrow> mode_po ov = None \<and> format_po ov = None \<and> outputDir_po ov = None
                  \<and> idleTimeLimit_po ov = None \<and> maxDuration_po ov = None
                  \<and> inactivityTimeout_po ov = None)"

text \<open>The recording a registry built without options creates when given no options.\<close>

definition default_recording :: Recorder where
  "default_recording =
     fst (createRecording sample_platform 900 ''ab'' None (new_RecordingManager sample_platform None))"

text \<open>
  A registry that holds the started sample recorder under its id, and the state reached
  when that recorder's maximal-duration timer fires.
\<close>

definition sample_registry :: "RecordingMode \<Rightarrow> RecordingManager \<times> filesys" where
  "sample_registry md =
     ((new_RecordingManager sample_platform None)
        \<lparr>recordings := [(''ab'', fst (sample_started md))]\<rparr>,
      snd (sample_started md))"

definition after_auto_finalize :: "RecordingManager \<times> filesys" where
  "after_auto_finalize =
     snd (timerFires sample_platform 3601000 MaxDuration ''ab'' (sample_registry Always))"

section \<open>Events and their logical timestamps\<close>




text \<open>What the second and later events add to the logical clock.\<close>

definition idleStep :: "Recorder \<Rightarrow> int \<Rightarrow> rat" where
  "idleStep r now =
     (if idleTimeLimit r > 0 \<and> of_int (now - lastEventTime r) / 1000 > idleTimeLimit r
      then idleTimeLimit r else of_int (now - lastEventTime r) / 1000)"


section \<open>The end-to-end scenario\<close>

text \<open>
  A recorder with mode \<open>always\<close> is created at \<open>t0\<close>, started at \<open>ts\<close> on an 80 by 24
  terminal, records the output \<^verbatim>\<open>"hello\n"\<close> at \<open>t1\<close> and a resize to 100 by 30 at
  \<open>t2\<close>, and is finalized at \<open>te\<close> with exit code 0 and stop reason \<open>explicit\<close>.
\<close>

definition end_to_end ::
  "platform \<Rightarrow> string \<Rightarrow> string \<Rightarrow> rat \<Rightarrow> rat \<Rightarrow> rat \<Rightarrow> Env option
     \<Rightarrow> int \<Rightarrow> int \<Rightarrow> int \<Rightarrow> int \<Rightarrow> int \<Rightarrow> filesys
     \<Rightarrow> (error + RecordingMetadata) \<times> Recorder \<times> filesys" where
  "end_to_end c ident outDir idleLimit maxDur inactTimeout e t0 ts t1 t2 te fs0 =
     finalize c te (Some 0) (Some Explicit)
       (recordResize c t2 100 30
          (recordOutput c t1 (''hello'' @ [nl])
             (snd (start c ts 80 24 e
                     (new_Recorder c t0 ident Always outDir V2 idleLimit maxDur inactTimeout,
                      fs0)))))"

text \<open>The fields of a recorder that recording an event does not change.\<close>

definition sameRecording :: "Recorder \<Rightarrow> Recorder \<Rightarrow> bool" where
  "sameRecording r r' =
     (id_r r' = id_r r \<and> mode r' = mode r \<and> tempPath r' = tempPath r
      \<and> finalPath r' = finalPath r \<and> writeStream r' = writeStream r
      \<and> finalized r' = finalized r \<and> startTime r' = startTime r
      \<and> idleTimeLimit r' = idleTimeLimit r \<and> stopReason r' = stopReason r)"

section \<open>Registries in good order\<close>







section \<open>Basic facts about the recorder operations\<close>

lemma clearTimers_fields [simp]:
  "id_r (clearTimers r) = id_r r"
  "mode (clearTimers r) = mode r"
  "tempPath (clearTimers r) = tempPath r"
  "finalPath (clearTimers r) = finalPath r"
  "writeStream (clearTimers r) = writeStream r"
  "startTime (clearTimers r) = startTime r"
  "bytesWritten (clearTimers r) = bytesWritten r"
  "finalized (clearTimers r) = finalized r"
  "stopReason (clearTimers r) = stopReason r"
  "onAutoFinalize (clearTimers r) = onAutoFinalize r"
  "maxDurationTimer (clearTimers r) = None"
  "inactivityTimer (clearTimers r) = None"
  by (simp_all add: clearTimers_def Let_def)

lemma finalize_saved:
  "finalize c now exitCode reason (r, fs) = (Inr md, s') \<Longrightarrow> saved_md md = shouldSave (mode r) exitCode"
  by (auto simp: finalize_def Let_def split: if_splits sum.splits option.splits prod.splits)

lemma finalize_returns:
  assumes "\<not> finalized r" and "\<forall>ws. writeStream r = Some ws \<longrightarrow> ws \<notin> faulty fs"
    and "files fs (tempPath r) \<noteq> None"
  shows "\<exists>md s'. finalize c now exitCode reason (r, fs) = (Inr md, s')"
  using assms
  by (auto simp: finalize_def Let_def stream_end_def renameSync_def copyFileSync_def unlinkSync_def
           split: option.splits)

lemma finalize_returns_iff:
  "(\<exists>md s'. finalize c now exitCode reason (r, fs) = (Inr md, s'))
     = (\<not> finalized r \<and> (\<forall>ws. writeStream r = Some ws \<longrightarrow> ws \<notin> faulty fs)
        \<and> (shouldSave (mode r) exitCode \<longrightarrow> files fs (tempPath r) \<noteq> None))"
  by (auto simp: finalize_def Let_def stream_end_def renameSync_def copyFileSync_def unlinkSync_def
           split: option.splits if_splits)

lemma sample_started_eq:
  "sample_started md =
    (\<lparr>id_r = ''ab'', mode = md, format = V2, outputDir = ''/out'',
      tempPath = ''/tmp/terminal-mcp-recording-ab.cast'',
      finalPath = ''/out/terminal-0-ab.cast'',
      writeStream = Some ''/tmp/terminal-mcp-recording-ab.cast'',
      startTime = 1000, bytesWritten = 49, finalized = False,
      idleTimeLimit = 2, lastEventTime = 0, adjustedElapsed = 0,
      maxDuration = 3600, inactivityTimeout = 600,
      maxDurationTimer = Some 3601000, inactivityTimer = Some 601000,
      stopReason = Explicit, onAutoFinalize = False\<rparr>,
     \<lparr>files = [''/tmp/terminal-mcp-recording-ab.cast'' \<mapsto>
         json_header sample_platform \<lparr>version = 2, width = 80, height = 24, timestamp = 1, env = None\<rparr> @ [nl]],
      faulty = {}, device = (\<lambda>p. 0)\<rparr>)"
  by (simp add: sample_started_def sample_platform_def empty_fs_def start_def new_Recorder_def Let_def
      createWriteStream_def writeLine_def stream_write_def path_join_def setTimeout_def
      json_header_def json_object_def json_field_def json_string_def json_escape_def)

lemma start_already_started:
  "writeStream r \<noteq> None \<Longrightarrow> start c now w h e (r, fs) = (Inl AlreadyStarted, (r, fs))"
  by (simp add: start_def)

lemma start_opens_stream:
  "fst (start c now w h e s) = Inr () \<Longrightarrow> writeStream (fst (snd (start c now w h e s))) \<noteq> None"
  by (cases s)
     (auto simp: start_def Let_def createWriteStream_def writeLine_def split: if_splits prod.splits)

lemma finalize_already_finalized:
  "finalized r \<Longrightarrow> finalize c now exitCode reason (r, fs) = (Inl AlreadyFinalized, (r, fs))"
  by (simp add: finalize_def)

lemma finalize_sets_finalized:
  "finalized (fst (snd (finalize c now exitCode reason s)))"
  by (cases s)
     (auto simp: finalize_def Let_def split: if_splits sum.splits option.splits prod.splits)

lemma sample_start_ok:
  "fst (start sample_platform 1000 80 24 None
          (new_Recorder sample_platform 900 ''ab'' md ''/out'' V2 2 3600 600, empty_fs)) = Inr ()"
  by (simp add: start_def new_Recorder_def Let_def split: prod.splits)

lemma finalize_discards:
  assumes "\<not> finalized r" and "\<not> shouldSave (mode r) exitCode"
    and "\<forall>ws. writeStream r = Some ws \<longrightarrow> ws \<notin> faulty fs"
  shows "\<exists>md r' fs'. finalize c now exitCode reason (r, fs) = (Inr md, (r', fs'))
           \<and> \<not> saved_md md \<and> path_md md = []
           \<and> files fs' (tempPath r) = None
           \<and> (\<forall>p. p \<noteq> tempPath r \<longrightarrow> files fs' p = files fs p)"
  using assms
  by (auto simp: finalize_def Let_def stream_end_def unlinkSync_def split: option.splits)

lemma getElapsedSeconds_frame [simp]:
  "inactivityTimer (snd (getElapsedSeconds now r)) = inactivityTimer r"
  "maxDurationTimer (snd (getElapsedSeconds now r)) = maxDurationTimer r"
  "writeStream (snd (getElapsedSeconds now r)) = writeStream r"
  "finalized (snd (getElapsedSeconds now r)) = finalized r"
  "idleTimeLimit (snd (getElapsedSeconds now r)) = idleTimeLimit r"
  "startTime (snd (getElapsedSeconds now r)) = startTime r"
  "bytesWritten (snd (getElapsedSeconds now r)) = bytesWritten r"
  "tempPath (snd (getElapsedSeconds now r)) = tempPath r"
  by (simp_all add: getElapsedSeconds_def Let_def)

lemma writeLine_frame [simp]:
  "inactivityTimer (fst (writeLine line (r, fs))) = inactivityTimer r"
  "maxDurationTimer (fst (writeLine line (r, fs))) = maxDurationTimer r"
  "writeStream (fst (writeLine line (r, fs))) = writeStream r"
  "finalized (fst (writeLine line (r, fs))) = finalized r"
  "tempPath (fst (writeLine line (r, fs))) = tempPath r"
  by (simp_all add: writeLine_def Let_def split: option.splits)

lemma orDefault_noOverrides:
  "noOverrides options \<Longrightarrow>
     orDefault options mode_po a = a \<and> orDefault options idleTimeLimit_po b = b
     \<and> orDefault options maxDuration_po b = b \<and> orDefault options inactivityTimeout_po b = b
     \<and> orDefault options outputDir_po d = d \<and> orDefault options format_po f = f"
  by (auto simp: noOverrides_def orDefault_def split: option.splits)

lemma update_same: "map_of al k = Some v \<Longrightarrow> AList.update k v al = al"
  by (induction al) (auto split: if_splits)

lemma update_keys_present:
  "map_of al k = Some v \<Longrightarrow> map fst (AList.update k v' al) = map fst al"
  by (induction al) (auto split: if_splits)

lemma autoFinalize_sets_finalized:
  "finalized (fst (snd (autoFinalize c now reason s)))"
proof (cases s)
  case (Pair r fs)
  show ?thesis
  proof (cases "finalized r")
    case True
    then show ?thesis using Pair by (simp add: autoFinalize_def)
  next
    case False
    have "snd (autoFinalize c now reason s)
            = snd (finalize c now None (Some reason) (r\<lparr>stopReason := reason\<rparr>, fs))"
      using False Pair by (simp add: autoFinalize_def split: prod.splits sum.splits)
    then show ?thesis by (simp add: finalize_sets_finalized)
  qed
qed

lemma finalizeEach_inactive:
  "\<forall>e \<in> set al. \<not> isActive (snd e) \<Longrightarrow>
     finalizeEach c now exitCode reason al fs results = (Inr results, ([], fs))"
  by (induction al) auto

lemma finalizeEach_skips:
  "fst (finalizeEach c now exitCode reason al fs acc)
     = fst (finalizeEach c now exitCode reason (filter (\<lambda>e. isActive (snd e)) al) fs acc)
   \<and> snd (snd (finalizeEach c now exitCode reason al fs acc))
     = snd (snd (finalizeEach c now exitCode reason (filter (\<lambda>e. isActive (snd e)) al) fs acc))"
proof (induction al arbitrary: fs acc)
  case Nil
  show ?case by simp
next
  case (Cons e al)
  obtain k r where e: "e = (k, r)" by (cases e)
  show ?case
  proof (cases "isActive r")
    case False
    then show ?thesis using Cons.IH [of fs acc] e by simp
  next
    case True
    obtain res r' fs' where f: "finalize c now exitCode (Some reason) (r, fs) = (res, (r', fs'))"
      by (metis prod.exhaust)
    show ?thesis
    proof (cases res)
      case (Inl err)
      then show ?thesis using True e f by simp
    next
      case (Inr md)
      then show ?thesis using True e f Cons.IH [of fs' "acc @ [md]"] by simp
    qed
  qed
qed

lemma finalizeEach_empties:
  "finalizeEach c now exitCode reason al fs acc = (Inr mds, (rest, fs')) \<Longrightarrow> rest = []"
proof (induction al arbitrary: fs acc)
  case Nil
  then show ?case by simp
next
  case (Cons e al)
  obtain k r where e: "e = (k, r)" by (cases e)
  show ?case
  proof (cases "isActive r")
    case False
    then show ?thesis using Cons e by simp
  next
    case True
    obtain res r' fs1 where f: "finalize c now exitCode (Some reason) (r, fs) = (res, (r', fs1))"
      by (metis prod.exhaust)
    show ?thesis
    proof (cases res)
      case (Inl err)
      then show ?thesis using True e f Cons.prems by simp
    next
      case (Inr md)
      then show ?thesis using True e f Cons.prems Cons.IH [of fs1 "acc @ [md]"] by simp
    qed
  qed
qed

lemma finalizeAll_skips:
  "fst (finalizeAll c now exitCode reason (mgr, fs))
     = fst (finalizeAll c now exitCode reason
              (mgr\<lparr>recordings := filter (\<lambda>e. isActive (snd e)) (recordings mgr)\<rparr>, fs))
   \<and> snd (snd (finalizeAll c now exitCode reason (mgr, fs)))
     = snd (snd (finalizeAll c now exitCode reason
              (mgr\<lparr>recordings := filter (\<lambda>e. isActive (snd e)) (recordings mgr)\<rparr>, fs)))"
  using finalizeEach_skips [of c now exitCode
      "case reason of None \<Rightarrow> SessionExit | Some x \<Rightarrow> x" "recordings mgr" fs "[]"]
  by (simp add: finalizeAll_def split_beta Let_def)

lemma finalizeAll_empties:
  assumes "finalizeAll c now exitCode reason (mgr, fs) = (Inr mds, (mgr', fs'))"
  shows "recordings mgr' = []"
proof -
  obtain res rest fs1 where
    e: "finalizeEach c now exitCode (case reason of None \<Rightarrow> SessionExit | Some x \<Rightarrow> x)
          (recordings mgr) fs [] = (res, (rest, fs1))"
    by (metis prod.exhaust)
  with assms have "res = Inr mds" "recordings mgr' = rest"
    by (auto simp: finalizeAll_def Let_def)
  with e show ?thesis using finalizeEach_empties by simp
qed

lemma timerFires_registry:
  assumes reg: "map_of (recordings mgr) ident = Some r"
    and fired: "timerFires c now reason ident (mgr, fs) = (res, (mgr1, fs1))"
  shows "map fst (recordings mgr1) = map fst (recordings mgr)
     \<and> hasRecording mgr1 ident
     \<and> (\<exists>r1. getRecording mgr1 ident = Some r1 \<and> finalized r1 \<and> \<not> isActive r1)
     \<and> finalizeRecording c t ident exitCode reason' (mgr1, fs1)
         = (Inl AlreadyFinalized, (mgr1, fs1))
     \<and> fst (finalizeAll c t exitCode reason' (mgr1, fs1))
         = fst (finalizeAll c t exitCode reason'
                  (mgr1\<lparr>recordings := filter (\<lambda>e. isActive (snd e)) (recordings mgr1)\<rparr>, fs1))
     \<and> snd (snd (finalizeAll c t exitCode reason' (mgr1, fs1)))
         = snd (snd (finalizeAll c t exitCode reason'
                  (mgr1\<lparr>recordings := filter (\<lambda>e. isActive (snd e)) (recordings mgr1)\<rparr>, fs1)))
     \<and> (\<forall>mds s2. finalizeAll c t exitCode reason' (mgr1, fs1) = (Inr mds, s2)
           \<longrightarrow> \<not> hasRecording (fst s2) ident)"
proof -
  obtain res' r1 fs' where af: "autoFinalize c now reason (r, fs) = (res', (r1, fs'))"
    by (metis prod.exhaust)
  from fired reg af have m1: "mgr1 = mgr\<lparr>recordings := AList.update ident r1 (recordings mgr)\<rparr>"
    and f1: "fs1 = fs'"
    by (auto simp: timerFires_def)
  have fin: "finalized r1"
    using autoFinalize_sets_finalized [of c now reason "(r, fs)"] af by simp
  have look: "map_of (recordings mgr1) ident = Some r1"
    by (simp add: m1 update_conv')
  have keys: "map fst (recordings mgr1) = map fst (recordings mgr)"
    by (simp add: m1 update_keys_present [OF reg])
  have has: "hasRecording mgr1 ident"
    by (simp add: hasRecording_def look)
  have again: "finalizeRecording c t ident exitCode reason' (mgr1, fs1)
         = (Inl AlreadyFinalized, (mgr1, fs1))"
    by (simp add: finalizeRecording_def look finalize_already_finalized [OF fin]
          update_same [OF look])
  have got: "\<exists>r1. getRecording mgr1 ident = Some r1 \<and> finalized r1 \<and> \<not> isActive r1"
    using look fin by (simp add: getRecording_def isActive_def)
  have gone: "\<forall>mds s2. finalizeAll c t exitCode reason' (mgr1, fs1) = (Inr mds, s2)
           \<longrightarrow> \<not> hasRecording (fst s2) ident"
  proof (intro allI impI)
    fix mds s2 assume a: "finalizeAll c t exitCode reason' (mgr1, fs1) = (Inr mds, s2)"
    obtain mgr2 fs2 where s2: "s2 = (mgr2, fs2)" by (cases s2)
    from finalizeAll_empties [OF a [unfolded s2]] show "\<not> hasRecording (fst s2) ident"
      by (simp add: s2 hasRecording_def)
  qed
  from keys has got again finalizeAll_skips [of c t exitCode reason' mgr1 fs1] gone
  show ?thesis by blast
qed

lemma sample_registry_lookup:
  "map_of (recordings (fst (sample_registry md))) ''ab'' = Some (fst (sample_started md))"
  by (simp add: sample_registry_def)

lemma after_auto_finalize_recordings:
  "recordings (fst after_auto_finalize) =
     [(''ab'', (fst (sample_started Always))
         \<lparr>finalized := True, maxDurationTimer := None, inactivityTimer := None,
          stopReason := MaxDuration\<rparr>)]"
  apply (simp add: after_auto_finalize_def timerFires_def sample_registry_def sample_started_eq
      autoFinalize_def finalize_def Let_def clearTimers_def stream_end_def shouldSave_def
      renameSync_def metaPathOf_def writeFileSync_def split: prod.splits)
  done

lemma after_auto_finalize_finalizeAll:
  "finalizeAll sample_platform t exitCode reason after_auto_finalize
     = (Inr [], ((fst after_auto_finalize)\<lparr>recordings := []\<rparr>, snd after_auto_finalize))"
  by (simp add: finalizeAll_def Let_def split_beta after_auto_finalize_recordings
      finalizeEach_inactive isActive_def)

lemma getElapsedSeconds_clock:
  "lastEventTime (snd (getElapsedSeconds now r)) = now"
  "adjustedElapsed (snd (getElapsedSeconds now r)) =
     (if lastEventTime r = 0 then of_int (now - startTime r) / 1000
      else adjustedElapsed r + idleStep r now)"
  "fst (getElapsedSeconds now r) = adjustedElapsed (snd (getElapsedSeconds now r))"
  by (simp_all add: getElapsedSeconds_def Let_def idleStep_def)

lemma writeLine_clock [simp]:
  "lastEventTime (fst (writeLine line (r, fs))) = lastEventTime r"
  "adjustedElapsed (fst (writeLine line (r, fs))) = adjustedElapsed r"
  "startTime (fst (writeLine line (r, fs))) = startTime r"
  "idleTimeLimit (fst (writeLine line (r, fs))) = idleTimeLimit r"
  by (simp_all add: writeLine_def Let_def split: option.splits)









lemma hexdigit_not_nl: "hexdigit d \<noteq> nl"
proof -
  have "d mod 16 < length ''0123456789abcdef''" by simp
  then have "''0123456789abcdef'' ! (d mod 16) \<in> set ''0123456789abcdef''"
    by (rule nth_mem)
  then show ?thesis unfolding hexdigit_def by auto
qed

lemma json_escape_no_nl: "nl \<notin> set (json_escape ch)"
  using hexdigit_not_nl [of "of_char ch div 16"] hexdigit_not_nl [of "of_char ch mod 16"]
  by (auto simp: json_escape_def)

lemma json_string_no_nl: "nl \<notin> set (json_string s)"
  by (auto simp: json_string_def json_escape_no_nl)

lemma json_field_no_nl: "nl \<notin> set v \<Longrightarrow> nl \<notin> set (json_field k v)"
  using json_string_no_nl [of k] by (simp add: json_field_def)

lemma commas_no_nl: "\<forall>x \<in> set xs. nl \<notin> set x \<Longrightarrow> nl \<notin> set (commas xs)"
  by (induction xs rule: commas.induct) auto

lemma json_object_no_nl: "\<forall>x \<in> set xs. nl \<notin> set x \<Longrightarrow> nl \<notin> set (json_object xs)"
  using commas_no_nl [of xs] by (simp add: json_object_def)

lemma json_env_no_nl: "nl \<notin> set (json_env e)"
  unfolding json_env_def
  by (rule json_object_no_nl)
     (auto simp: json_opt_field_def json_field_no_nl json_string_no_nl split: option.splits)

lemma json_header_no_nl:
  assumes "\<forall>q. nl \<notin> set (numStr c q)"
  shows "nl \<notin> set (json_header c h)"
  unfolding json_header_def
  by (rule json_object_no_nl)
     (use assms in \<open>auto simp: json_field_no_nl json_env_no_nl split: option.splits\<close>)

lemma json_event_no_nl:
  assumes "\<forall>q. nl \<notin> set (numStr c q)"
  shows "nl \<notin> set (json_event c ev)"
  using assms json_string_no_nl
  by (cases ev) (auto simp: json_event_def)

lemma metaPathOf_cast: "metaPathOf (p @ ''.cast'') = p @ ''.meta.json''"
  by (simp add: metaPathOf_def)

lemma finalPath_new_Recorder:
  "\<exists>p. finalPath (new_Recorder c now ident md outDir fmt l m i) = p @ ''.cast''"
  by (auto simp: new_Recorder_def Let_def path_join_def)

lemma metaPath_differs:
  "metaPathOf (finalPath (new_Recorder c now ident md outDir fmt l m i))
     \<noteq> finalPath (new_Recorder c now ident md outDir fmt l m i)"
proof -
  obtain p where p: "finalPath (new_Recorder c now ident md outDir fmt l m i) = p @ ''.cast''"
    using finalPath_new_Recorder by blast
  have "last (p @ ''.meta.json'') \<noteq> last (p @ ''.cast'')" by simp
  then show ?thesis unfolding p metaPathOf_cast by metis
qed

lemma writeLine_appends:
  assumes "writeStream r = Some p" and "p \<notin> faulty fs" and "files fs p = Some old"
  shows "writeLine line (r, fs)
           = (r\<lparr>bytesWritten := bytesWritten r + length line + 1\<rparr>,
              fs\<lparr>files := (files fs)(p \<mapsto> old @ line @ [nl])\<rparr>)"
  using assms by (simp add: writeLine_def stream_write_def Let_def)

lemma start_fresh:
  assumes "writeStream r = None" and "tempPath r \<notin> faulty fs"
  shows "\<exists>r' fs'. start c now w h e (r, fs) = (Inr (), (r', fs'))
     \<and> writeStream r' = Some (tempPath r) \<and> \<not> finalized r' = (\<not> finalized r)
     \<and> tempPath r' = tempPath r \<and> finalPath r' = finalPath r \<and> mode r' = mode r
     \<and> id_r r' = id_r r \<and> startTime r' = now \<and> lastEventTime r' = lastEventTime r
     \<and> idleTimeLimit r' = idleTimeLimit r \<and> stopReason r' = stopReason r
     \<and> bytesWritten r'
          = bytesWritten r + length (json_header c \<lparr>version = 2, width = w, height = h,
                                        timestamp = now div 1000, env = e\<rparr>) + 1
     \<and> files fs' = (files fs)(tempPath r \<mapsto>
           json_header c \<lparr>version = 2, width = w, height = h,
                           timestamp = now div 1000, env = e\<rparr> @ [nl])
     \<and> faulty fs' = faulty fs \<and> device fs' = device fs"
  using assms
  by (simp add: start_def createWriteStream_def Let_def writeLine_def stream_write_def)

lemma getElapsedSeconds_same: "sameRecording r (snd (getElapsedSeconds now r))"
  by (simp add: sameRecording_def getElapsedSeconds_def Let_def)

lemma recordOutput_appends:
  assumes "writeStream r = Some p" and "\<not> finalized r" and "p \<notin> faulty fs"
    and "files fs p = Some old"
  shows "\<exists>r' stamp. recordOutput c now data (r, fs)
            = (r', fs\<lparr>files := (files fs)(p \<mapsto> old @ json_event c (stamp, CHR ''o'', data) @ [nl])\<rparr>)
     \<and> bytesWritten r' = bytesWritten r + length (json_event c (stamp, CHR ''o'', data)) + 1
     \<and> stamp = adjustedElapsed r' \<and> sameRecording r r'"
  using assms
  by (simp add: recordOutput_def Let_def split_beta writeLine_def stream_write_def
        sameRecording_def getElapsedSeconds_clock(3))
     (simp add: getElapsedSeconds_def Let_def)

lemma recordResize_appends:
  assumes "writeStream r = Some p" and "\<not> finalized r" and "p \<notin> faulty fs"
    and "files fs p = Some old"
  shows "\<exists>r' stamp. recordResize c now cols rows (r, fs)
            = (r', fs\<lparr>files := (files fs)(p \<mapsto> old
                  @ json_event c (stamp, CHR ''r'',
                      numStr c (of_int cols) @ ''x'' @ numStr c (of_int rows)) @ [nl])\<rparr>)
     \<and> bytesWritten r' = bytesWritten r
          + length (json_event c (stamp, CHR ''r'',
                      numStr c (of_int cols) @ ''x'' @ numStr c (of_int rows))) + 1
     \<and> stamp = adjustedElapsed r' \<and> sameRecording r r'"
  using assms
  by (simp add: recordResize_def Let_def split_beta writeLine_def stream_write_def
        sameRecording_def getElapsedSeconds_clock(3))
     (simp add: getElapsedSeconds_def Let_def)

lemma finalize_saves:
  assumes "\<not> finalized r" and "writeStream r = Some (tempPath r)"
    and "tempPath r \<notin> faulty fs" and "files fs (tempPath r) = Some content"
    and "shouldSave (mode r) exitCode" and "metaPathOf (finalPath r) \<noteq> finalPath r"
  shows "\<exists>md r' fs'. finalize c now exitCode reason (r, fs) = (Inr md, (r', fs'))
     \<and> saved_md md \<and> path_md md = finalPath r \<and> files fs' (finalPath r) = Some content
     \<and> bytesWritten_md md = bytesWritten r \<and> exitCode_md md = exitCode \<and> id_md md = id_r r
     \<and> stopReason_md md = (case reason of Some x \<Rightarrow> x | None \<Rightarrow> stopReason r)
     \<and> (\<forall>p. p \<noteq> tempPath r \<and> files fs p \<noteq> None \<longrightarrow> files fs' p \<noteq> None)
     \<and> faulty fs' = faulty fs \<and> device fs' = device fs"
proof (cases "device fs (tempPath r) = device fs (finalPath r)")
  case True
  with assms show ?thesis
    by (auto simp: finalize_def Let_def stream_end_def renameSync_def writeFileSync_def
          split: option.splits)
next
  case False
  then have "tempPath r \<noteq> finalPath r" by auto
  with False assms show ?thesis
    by (auto simp: finalize_def Let_def stream_end_def renameSync_def copyFileSync_def
          unlinkSync_def writeFileSync_def split: option.splits)
qed

lemma count_nl_0: "nl \<notin> set line \<Longrightarrow> count_list line nl = 0"
  by (induction line) auto

lemma count_nl_3:
  assumes "nl \<notin> set a" and "nl \<notin> set b" and "nl \<notin> set d"
  shows "count_list (a @ [nl] @ b @ [nl] @ d @ [nl]) nl = 3"
  using assms by (simp add: count_nl_0)






lemma length_forActive: "length (fst (forActive op al fs)) = length al"
  by (induction al arbitrary: fs) (auto simp: split_beta)












section \<open>Persistence policy\<close>

text \<open>
  C1. Whenever \<open>finalize\<close> yields a metadata value, its \<open>saved\<close> flag follows the policy:
  with mode \<open>always\<close> it is true for every exit code; with mode \<open>on-failure\<close> it is false
  for exit code 0, true for exit code 7 and for every other exit code that is neither null
  nor zero, and false for a null exit code. And \<open>finalize\<close> yields a metadata value
  exactly when the recorder is not yet finalized, its stream closes without an I/O error
  and, if the policy decides to save, its temp file is in place.
\<close>

theorem finalize_policy:
  "(\<forall>md s'. finalize c now exitCode reason (r, fs) = (Inr md, s') \<longrightarrow>
        (mode r = Always \<longrightarrow> saved_md md)
      \<and> (mode r = OnFailure \<and> exitCode = Some 0 \<longrightarrow> \<not> saved_md md)
      \<and> (mode r = OnFailure \<and> exitCode = Some 7 \<longrightarrow> saved_md md)
      \<and> (mode r = OnFailure \<and> exitCode \<noteq> None \<and> exitCode \<noteq> Some 0 \<longrightarrow> saved_md md)
      \<and> (mode r = OnFailure \<and> exitCode = None \<longrightarrow> \<not> saved_md md))
   \<and> ((\<exists>md s'. finalize c now exitCode reason (r, fs) = (Inr md, s'))
        = (\<not> finalized r \<and> (\<forall>ws. writeStream r = Some ws \<longrightarrow> ws \<notin> faulty fs)
           \<and> (shouldSave (mode r) exitCode \<longrightarrow> files fs (tempPath r) \<noteq> None)))"
proof (intro conjI allI impI)
  fix md s' assume h: "finalize c now exitCode reason (r, fs) = (Inr md, s')"
  note sv = finalize_saved [OF h]
  { assume "mode r = Always" then show "saved_md md" using sv by (simp add: shouldSave_def) }
  { assume "mode r = OnFailure \<and> exitCode = Some 0"
    then show "\<not> saved_md md" using sv by (simp add: shouldSave_def) }
  { assume "mode r = OnFailure \<and> exitCode = Some 7"
    then show "saved_md md" using sv by (simp add: shouldSave_def) }
  { assume "mode r = OnFailure \<and> exitCode \<noteq> None \<and> exitCode \<noteq> Some 0"
    then show "saved_md md" using sv by (simp add: shouldSave_def) }
  { assume "mode r = OnFailure \<and> exitCode = None"
    then show "\<not> saved_md md" using sv by (simp add: shouldSave_def) }
next
  show "(\<exists>md s'. finalize c now exitCode reason (r, fs) = (Inr md, s'))
        = (\<not> finalized r \<and> (\<forall>ws. writeStream r = Some ws \<longrightarrow> ws \<notin> faulty fs)
           \<and> (shouldSave (mode r) exitCode \<longrightarrow> files fs (tempPath r) \<noteq> None))"
    by (rule finalize_returns_iff)
qed

theorem finalize_policy_witness:
  "(\<exists>md s'. finalize sample_platform 5000 (Some 7) None (sample_started OnFailure) = (Inr md, s')
       \<and> saved_md md)
   \<and> (\<exists>md s'. finalize sample_platform 5000 (Some 0) None (sample_started OnFailure) = (Inr md, s')
       \<and> \<not> saved_md md)"
proof -
  obtain r fs where s: "sample_started OnFailure = (r, fs)" by (cases "sample_started OnFailure")
  have pre: "\<not> finalized r \<and> (\<forall>ws. writeStream r = Some ws \<longrightarrow> ws \<notin> faulty fs)
        \<and> files fs (tempPath r) \<noteq> None"
    and m: "mode r = OnFailure"
    using s by (auto simp: sample_started_eq)
  from pre finalize_policy [of sample_platform 5000 "Some 7" None r fs] m
  have a: "\<exists>md s'. finalize sample_platform 5000 (Some 7) None (r, fs) = (Inr md, s') \<and> saved_md md"
    by blast
  from pre finalize_policy [of sample_platform 5000 "Some 0" None r fs] m
  have b: "\<exists>md s'. finalize sample_platform 5000 (Some 0) None (r, fs) = (Inr md, s') \<and> \<not> saved_md md"
    by blast
  show ?thesis using a b s by simp
qed

section \<open>Lifecycle misuse\<close>

text \<open>
  C3. Calling \<open>start\<close> on a recorder that has been started raises the error
  \<open>AlreadyStarted\<close>, and calling \<open>finalize\<close> on a recorder that has been finalized raises
  the error \<open>AlreadyFinalized\<close>. The failed second call changes neither the recorder nor the
  file system, so what the first call's metadata describes is still in place.
\<close>

theorem lifecycle_misuse:
  "(fst (start c t w h e s) = Inr () \<longrightarrow>
      start c t' w' h' e' (snd (start c t w h e s)) = (Inl AlreadyStarted, snd (start c t w h e s)))
   \<and> (\<forall>md s1. finalize c tf exitCode reason sf = (Inr md, s1) \<longrightarrow>
         finalize c tf' exitCode' reason' s1 = (Inl AlreadyFinalized, s1))"
proof (intro conjI allI impI)
  assume ok: "fst (start c t w h e s) = Inr ()"
  obtain r1 fs1 where s1: "snd (start c t w h e s) = (r1, fs1)"
    by (cases "snd (start c t w h e s)")
  from start_opens_stream [OF ok] s1 have "writeStream r1 \<noteq> None" by simp
  then show "start c t' w' h' e' (snd (start c t w h e s))
      = (Inl AlreadyStarted, snd (start c t w h e s))"
    unfolding s1 by (rule start_already_started)
next
  fix md s1 assume f: "finalize c tf exitCode reason sf = (Inr md, s1)"
  obtain r1 fs1 where s1: "s1 = (r1, fs1)" by (cases s1)
  from finalize_sets_finalized [of c tf exitCode reason sf] f s1 have "finalized r1" by simp
  then show "finalize c tf' exitCode' reason' s1 = (Inl AlreadyFinalized, s1)"
    unfolding s1 by (rule finalize_already_finalized)
qed

theorem lifecycle_misuse_witness:
  "start sample_platform 2000 100 30 None (sample_started Always)
     = (Inl AlreadyStarted, sample_started Always)
   \<and> (\<exists>md s1. finalize sample_platform 5000 (Some 0) (Some Explicit) (sample_started Always)
                 = (Inr md, s1)
         \<and> finalize sample_platform 6000 (Some 1) None s1 = (Inl AlreadyFinalized, s1))"
proof -
  let ?s0 = "(new_Recorder sample_platform 900 ''ab'' Always ''/out'' V2 2 3600 600, empty_fs)"
  note L = lifecycle_misuse [where c = sample_platform and t = 1000 and w = 80 and h = 24
      and e = None and s = "?s0" and t' = 2000 and w' = 100 and h' = 30 and e' = None]
  have a: "start sample_platform 2000 100 30 None (sample_started Always)
     = (Inl AlreadyStarted, sample_started Always)"
    using L sample_start_ok [of Always] unfolding sample_started_def by blast
  note M = lifecycle_misuse [where c = sample_platform and tf = 5000 and exitCode = "Some 0"
      and reason = "Some Explicit" and sf = "sample_started Always" and tf' = 6000
      and exitCode' = "Some 1" and reason' = None]
  obtain md s1 where f: "finalize sample_platform 5000 (Some 0) (Some Explicit)
      (sample_started Always) = (Inr md, s1)"
    using finalize_returns [of "fst (sample_started Always)" "snd (sample_started Always)"
        sample_platform 5000 "Some 0" "Some Explicit"]
    by (auto simp: sample_started_eq)
  with M have "finalize sample_platform 6000 (Some 1) None s1 = (Inl AlreadyFinalized, s1)"
    by blast
  with a f show ?thesis by blast
qed

section \<open>The discard path\<close>

text \<open>
  C9. When the persistence policy decides to discard, \<open>finalize\<close> returns a metadata value
  with \<open>saved = false\<close> and the empty string as path, and afterwards there is no temp file,
  whether the temp file was there before the call or already missing; no other file is
  touched. (The stream has to close without an I/O error.)
\<close>

theorem finalize_discard_path:
  assumes "\<not> finalized r" and "\<not> shouldSave (mode r) exitCode"
    and "\<forall>ws. writeStream r = Some ws \<longrightarrow> ws \<notin> faulty fs"
  shows "\<exists>md r' fs'. finalize c now exitCode reason (r, fs) = (Inr md, (r', fs'))
           \<and> \<not> saved_md md \<and> path_md md = []
           \<and> files fs' (tempPath r) = None
           \<and> (\<forall>p. p \<noteq> tempPath r \<longrightarrow> files fs' p = files fs p)"
  using assms by (rule finalize_discards)

theorem finalize_discard_path_witness:
  "(\<exists>md r' fs'. finalize sample_platform 5000 (Some 0) None (sample_started OnFailure)
        = (Inr md, (r', fs'))
      \<and> \<not> saved_md md \<and> path_md md = []
      \<and> files (snd (sample_started OnFailure)) (tempPath (fst (sample_started OnFailure))) \<noteq> None
      \<and> files fs' (tempPath (fst (sample_started OnFailure))) = None)
   \<and> (\<exists>md r' fs'. finalize sample_platform 5000 None None (fst (sample_started OnFailure), empty_fs)
        = (Inr md, (r', fs'))
      \<and> \<not> saved_md md \<and> path_md md = []
      \<and> files empty_fs (tempPath (fst (sample_started OnFailure))) = None
      \<and> files fs' (tempPath (fst (sample_started OnFailure))) = None)"
proof -
  obtain r fs where s: "sample_started OnFailure = (r, fs)" by (cases "sample_started OnFailure")
  have pre: "\<not> finalized r" "\<not> shouldSave (mode r) (Some 0)" "\<not> shouldSave (mode r) None"
    "\<forall>ws. writeStream r = Some ws \<longrightarrow> ws \<notin> faulty fs"
    "\<forall>ws. writeStream r = Some ws \<longrightarrow> ws \<notin> faulty empty_fs"
    and here: "files fs (tempPath r) \<noteq> None" and gone: "files empty_fs (tempPath r) = None"
    using s by (auto simp: sample_started_eq shouldSave_def empty_fs_def)
  from finalize_discard_path [OF pre(1) pre(2) pre(4), of sample_platform 5000 None] here
  have a: "\<exists>md r' fs'. finalize sample_platform 5000 (Some 0) None (r, fs) = (Inr md, (r', fs'))
      \<and> \<not> saved_md md \<and> path_md md = [] \<and> files fs (tempPath r) \<noteq> None
      \<and> files fs' (tempPath r) = None"
    by blast
  from finalize_discard_path [OF pre(1) pre(3) pre(5), of sample_platform 5000 None] gone
  have b: "\<exists>md r' fs'. finalize sample_platform 5000 None None (r, empty_fs) = (Inr md, (r', fs'))
      \<and> \<not> saved_md md \<and> path_md md = [] \<and> files empty_fs (tempPath r) = None
      \<and> files fs' (tempPath r) = None"
    by blast
  show ?thesis using a b s by simp
qed

section \<open>The inactivity timer\<close>

text \<open>
  C7. On an active recorder whose inactivity timer is armed, \<open>recordOutput\<close> re-arms the
  timer, counting the inactivity timeout from the instant of the output event. \<open>recordResize\<close>
  leaves the timer as it was: its deadline after the call is its deadline before the call.
\<close>

theorem inactivity_timer_frame:
  "(isActive r \<and> inactivityTimeout r > 0 \<and> inactivityTimer r \<noteq> None \<longrightarrow>
      inactivityTimer (fst (recordOutput c now data (r, fs)))
        = Some (setTimeout now (inactivityTimeout r * 1000)))
   \<and> inactivityTimer (fst (recordResize c now cols rows (r, fs))) = inactivityTimer r"
  by (simp add: recordOutput_def recordResize_def isActive_def Let_def split_beta)

theorem inactivity_timer_frame_witness:
  "inactivityTimer (fst (sample_started Always)) = Some 601000
   \<and> inactivityTimer (fst (recordOutput sample_platform 5000 ''ls'' (sample_started Always)))
       = Some 605000
   \<and> inactivityTimer (fst (recordResize sample_platform 5000 100 30 (sample_started Always)))
       = Some 601000"
proof -
  obtain r fs where s: "sample_started Always = (r, fs)" by (cases "sample_started Always")
  have pre: "isActive r \<and> inactivityTimeout r > 0 \<and> inactivityTimer r \<noteq> None"
    and v: "inactivityTimer r = Some 601000" "inactivityTimeout r = 600"
    using s by (auto simp: sample_started_eq isActive_def)
  from inactivity_timer_frame [of r sample_platform 5000 "''ls''" fs 100 30] pre v
  show ?thesis unfolding s by (simp add: setTimeout_def)
qed

section \<open>Default configuration\<close>

text \<open>
  C4, as the code has it. A recording created through the registry without option overrides
  takes the registry's default options. For a registry that was itself constructed without
  options these are mode \<open>off\<close>, idle time limit 2, maximal duration 3600 and inactivity
  timeout 600. (The default mode \<open>always\<close> belongs to the schema of the start-recording
  tool, which passes its options explicitly.)
\<close>

theorem createRecording_defaults:
  "(noOverrides options \<longrightarrow>
      mode (fst (createRecording c now ident options mgr)) = mode_opt (defaultOptions mgr)
    \<and> idleTimeLimit (fst (createRecording c now ident options mgr))
        = idleTimeLimit_opt (defaultOptions mgr)
    \<and> maxDuration (fst (createRecording c now ident options mgr))
        = maxDuration_opt (defaultOptions mgr)
    \<and> inactivityTimeout (fst (createRecording c now ident options mgr))
        = inactivityTimeout_opt (defaultOptions mgr))
   \<and> (noOverrides options \<and> noOverrides mopts \<longrightarrow>
      mode (fst (createRecording c now ident options (new_RecordingManager c mopts))) = Off
    \<and> idleTimeLimit (fst (createRecording c now ident options (new_RecordingManager c mopts))) = 2
    \<and> maxDuration (fst (createRecording c now ident options (new_RecordingManager c mopts))) = 3600
    \<and> inactivityTimeout (fst (createRecording c now ident options (new_RecordingManager c mopts)))
        = 600)"
  by (simp add: createRecording_def new_RecordingManager_def new_Recorder_def Let_def
        orDefault_noOverrides)

theorem createRecording_defaults_witness:
  "mode default_recording = Off \<and> idleTimeLimit default_recording = 2
   \<and> maxDuration default_recording = 3600 \<and> inactivityTimeout default_recording = 600"
proof -
  have n: "noOverrides None" by (simp add: noOverrides_def)
  from createRecording_defaults [of None sample_platform 900 "''ab''"
          "new_RecordingManager sample_platform None" None] n
  show ?thesis unfolding default_recording_def by blast
qed

text \<open>
  The default recording of the sample platform does not have mode \<open>always\<close>.
\<close>

theorem createRecording_default_mode_counterexample:
  "\<not> (mode default_recording = Always \<and> idleTimeLimit default_recording = 2
      \<and> maxDuration default_recording = 3600 \<and> inactivityTimeout default_recording = 600)"
  by (simp add: default_recording_def createRecording_def new_RecordingManager_def
        new_Recorder_def Let_def orDefault_def)

section \<open>Auto-finalize and the registry\<close>

text \<open>
  C10, as the code has it. When a timer of a registered recorder fires, the keys of the
  registry stay as they are, so \<open>hasRecording\<close> still holds for the id, and the registered
  recorder is finalized, hence not active. A later \<open>finalizeRecording\<close> for that id calls
  \<open>finalize\<close> on the finalized recorder, fails with \<open>AlreadyFinalized\<close> and leaves
  registry and file system unchanged: the entry is not removed. \<open>finalizeAll\<close> does not
  call \<open>finalize\<close> on recorders that are not active: its result and its effect on the
  file system are those it has on the registry without them. When it returns, the entry of
  the id is gone.
\<close>

theorem auto_finalize_registry:
  assumes "map_of (recordings mgr) ident = Some r"
    and "timerFires c now reason ident (mgr, fs) = (res, (mgr1, fs1))"
  shows "map fst (recordings mgr1) = map fst (recordings mgr)
     \<and> hasRecording mgr1 ident
     \<and> (\<exists>r1. getRecording mgr1 ident = Some r1 \<and> finalized r1 \<and> \<not> isActive r1)
     \<and> finalizeRecording c t ident exitCode reason' (mgr1, fs1)
         = (Inl AlreadyFinalized, (mgr1, fs1))
     \<and> fst (finalizeAll c t exitCode reason' (mgr1, fs1))
         = fst (finalizeAll c t exitCode reason'
                  (mgr1\<lparr>recordings := filter (\<lambda>e. isActive (snd e)) (recordings mgr1)\<rparr>, fs1))
     \<and> snd (snd (finalizeAll c t exitCode reason' (mgr1, fs1)))
         = snd (snd (finalizeAll c t exitCode reason'
                  (mgr1\<lparr>recordings := filter (\<lambda>e. isActive (snd e)) (recordings mgr1)\<rparr>, fs1)))
     \<and> (\<forall>mds s2. finalizeAll c t exitCode reason' (mgr1, fs1) = (Inr mds, s2)
           \<longrightarrow> \<not> hasRecording (fst s2) ident)"
  using assms by (rule timerFires_registry)

theorem auto_finalize_registry_witness:
  "hasRecording (fst after_auto_finalize) ''ab''
   \<and> finalizeRecording sample_platform 3700000 ''ab'' (Some 0) (Some Explicit) after_auto_finalize
       = (Inl AlreadyFinalized, after_auto_finalize)
   \<and> \<not> hasRecording
         (fst (snd (finalizeAll sample_platform 3700000 (Some 0) (Some Explicit)
                      after_auto_finalize))) ''ab''"
proof -
  obtain res mgr1 fs1 where
    fired: "timerFires sample_platform 3601000 MaxDuration ''ab''
              (fst (sample_registry Always), snd (sample_registry Always)) = (res, (mgr1, fs1))"
    by (metis prod.exhaust)
  then have a: "after_auto_finalize = (mgr1, fs1)"
    by (simp add: after_auto_finalize_def)
  note T = auto_finalize_registry [where t = 3700000 and exitCode = "Some 0"
      and reason' = "Some Explicit", OF sample_registry_lookup fired]
  have ok: "finalizeAll sample_platform 3700000 (Some 0) (Some Explicit) (mgr1, fs1)
     = (Inr [], (mgr1\<lparr>recordings := []\<rparr>, fs1))"
    using after_auto_finalize_finalizeAll [of 3700000 "Some 0" "Some Explicit"]
    unfolding a by simp
  from T have "hasRecording mgr1 ''ab''"
    and "finalizeRecording sample_platform 3700000 ''ab'' (Some 0) (Some Explicit) (mgr1, fs1)
       = (Inl AlreadyFinalized, (mgr1, fs1))"
    and "\<forall>mds s2. finalizeAll sample_platform 3700000 (Some 0) (Some Explicit) (mgr1, fs1)
            = (Inr mds, s2) \<longrightarrow> \<not> hasRecording (fst s2) ''ab''"
    by blast+
  with ok show ?thesis unfolding a by simp
qed

text \<open>
  After the maximal-duration timer of the sample recorder has fired: \<open>finalizeRecording\<close>
  fails and the entry is still registered; \<open>finalizeAll\<close> removes the entry and reports
  neither an error nor a metadata value.
\<close>

theorem auto_finalize_registry_counterexample:
  "hasRecording (fst after_auto_finalize) ''ab''
   \<and> fst (finalizeRecording sample_platform 3700000 ''ab'' (Some 0) (Some Explicit)
            after_auto_finalize) = Inl AlreadyFinalized
   \<and> hasRecording
        (fst (snd (finalizeRecording sample_platform 3700000 ''ab'' (Some 0) (Some Explicit)
                     after_auto_finalize))) ''ab''
   \<and> fst (finalizeAll sample_platform 3700000 (Some 0) None after_auto_finalize) = Inr []
   \<and> \<not> hasRecording (fst (snd (finalizeAll sample_platform 3700000 (Some 0) None
                                   after_auto_finalize))) ''ab''"
proof -
  obtain res mgr1 fs1 where
    fired: "timerFires sample_platform 3601000 MaxDuration ''ab''
              (fst (sample_registry Always), snd (sample_registry Always)) = (res, (mgr1, fs1))"
    by (metis prod.exhaust)
  then have a: "after_auto_finalize = (mgr1, fs1)"
    by (simp add: after_auto_finalize_def)
  from timerFires_registry [where t = 3700000 and exitCode = "Some 0"
      and reason' = "Some Explicit", OF sample_registry_lookup fired]
  have p1: "hasRecording mgr1 ''ab''"
    and p2: "finalizeRecording sample_platform 3700000 ''ab'' (Some 0) (Some Explicit) (mgr1, fs1)
       = (Inl AlreadyFinalized, (mgr1, fs1))"
    by blast+
  have p3: "finalizeAll sample_platform 3700000 (Some 0) None (mgr1, fs1)
       = (Inr [], (mgr1\<lparr>recordings := []\<rparr>, fs1))"
    using after_auto_finalize_finalizeAll [of 3700000 "Some 0" None] unfolding a by simp
  show ?thesis unfolding a using p1 p2 p3 by (simp add: hasRecording_def)
qed

section \<open>Elapsed-time normalisation\<close>




section \<open>The end-to-end scenario: three lines, saved, bytes counted\<close>

text \<open>
  C6. In the end-to-end scenario \<open>finalize\<close> returns metadata with \<open>saved = true\<close> and
  stop reason \<open>explicit\<close>. The file at the returned path consists of exactly three lines,
  each ended by a newline and containing no other newline: the header, the output event
  (the newline of \<^verbatim>\<open>"hello\n"\<close> is escaped by the JSON encoding) and the resize event.
  \<open>bytesWritten\<close> is the byte length of these three lines, newlines included, that is the
  size of the file. Assumed of the platform: the text of a number contains no newline, and
  the temp path has no I/O fault.
\<close>

theorem end_to_end_scenario:
  assumes num: "\<forall>q. nl \<notin> set (numStr c q)"
    and io: "tempPath (new_Recorder c t0 ident Always outDir V2 idleLimit maxDur inactTimeout)
               \<notin> faulty fs0"
  shows "\<exists>md r fs header out resize.
       end_to_end c ident outDir idleLimit maxDur inactTimeout e t0 ts t1 t2 te fs0
         = (Inr md, (r, fs))
     \<and> saved_md md \<and> stopReason_md md = Explicit
     \<and> files fs (path_md md) = Some (header @ [nl] @ out @ [nl] @ resize @ [nl])
     \<and> header = json_header c \<lparr>version = 2, width = 80, height = 24,
                                 timestamp = ts div 1000, env = e\<rparr>
     \<and> (\<exists>stamp. out = json_event c (stamp, CHR ''o'', ''hello'' @ [nl]))
     \<and> (\<exists>stamp. resize = json_event c (stamp, CHR ''r'', numStr c 100 @ ''x'' @ numStr c 30))
     \<and> nl \<notin> set header \<and> nl \<notin> set out \<and> nl \<notin> set resize
     \<and> count_list (header @ [nl] @ out @ [nl] @ resize @ [nl]) nl = 3
     \<and> bytesWritten_md md = length (header @ [nl] @ out @ [nl] @ resize @ [nl])"
proof -
  define r0 where "r0 = new_Recorder c t0 ident Always outDir V2 idleLimit maxDur inactTimeout"
  define header where "header = json_header c \<lparr>version = 2, width = 80, height = 24,
                                 timestamp = ts div 1000, env = e\<rparr>"
  have r0: "writeStream r0 = None" "bytesWritten r0 = 0" "mode r0 = Always" "\<not> finalized r0"
    by (simp_all add: r0_def new_Recorder_def Let_def)
  have meta: "metaPathOf (finalPath r0) \<noteq> finalPath r0"
    unfolding r0_def by (rule metaPath_differs)
  have io0: "tempPath r0 \<notin> faulty fs0" using io by (simp add: r0_def)
  from start_fresh [OF r0(1) io0, of c ts 80 24 e]
  obtain r1 fs1 where s1: "start c ts 80 24 e (r0, fs0) = (Inr (), (r1, fs1))"
    and w1: "writeStream r1 = Some (tempPath r0)" and f1: "\<not> finalized r1"
    and p1: "tempPath r1 = tempPath r0" "finalPath r1 = finalPath r0" "mode r1 = mode r0"
    and b1: "bytesWritten r1 = length header + 1"
    and c1: "files fs1 (tempPath r0) = Some (header @ [nl])"
    and e1: "faulty fs1 = faulty fs0"
    unfolding header_def using r0 by auto
  have io1: "tempPath r0 \<notin> faulty fs1" using io0 e1 by simp
  from recordOutput_appends [OF w1 f1 io1 c1, of c t1 "''hello'' @ [nl]"]
  obtain r2 st1 where s2: "recordOutput c t1 (''hello'' @ [nl]) (r1, fs1)
        = (r2, fs1\<lparr>files := (files fs1)(tempPath r0 \<mapsto>
              (header @ [nl]) @ json_event c (st1, CHR ''o'', ''hello'' @ [nl]) @ [nl])\<rparr>)"
    and b2: "bytesWritten r2
        = bytesWritten r1 + length (json_event c (st1, CHR ''o'', ''hello'' @ [nl])) + 1"
    and same2: "sameRecording r1 r2"
    by blast
  define out where "out = json_event c (st1, CHR ''o'', ''hello'' @ [nl])"
  define fs2 where "fs2 = fs1\<lparr>files := (files fs1)(tempPath r0 \<mapsto> (header @ [nl]) @ out @ [nl])\<rparr>"
  have w2: "writeStream r2 = Some (tempPath r0)" and f2: "\<not> finalized r2"
    and io2: "tempPath r0 \<notin> faulty fs2"
    and c2: "files fs2 (tempPath r0) = Some ((header @ [nl]) @ out @ [nl])"
    using same2 w1 f1 io1 by (simp_all add: sameRecording_def fs2_def)
  from recordResize_appends [OF w2 f2 io2 c2, of c t2 100 30]
  obtain r3 st2 where s3: "recordResize c t2 100 30 (r2, fs2)
        = (r3, fs2\<lparr>files := (files fs2)(tempPath r0 \<mapsto> ((header @ [nl]) @ out @ [nl])
              @ json_event c (st2, CHR ''r'', numStr c 100 @ ''x'' @ numStr c 30) @ [nl])\<rparr>)"
    and b3: "bytesWritten r3 = bytesWritten r2
        + length (json_event c (st2, CHR ''r'', numStr c 100 @ ''x'' @ numStr c 30)) + 1"
    and same3: "sameRecording r2 r3"
    by auto
  define resize where "resize = json_event c (st2, CHR ''r'', numStr c 100 @ ''x'' @ numStr c 30)"
  define content where "content = header @ [nl] @ out @ [nl] @ resize @ [nl]"
  define fs3 where "fs3 = fs2\<lparr>files := (files fs2)(tempPath r0 \<mapsto> content)\<rparr>"
  have pre3: "\<not> finalized r3" "writeStream r3 = Some (tempPath r3)" "tempPath r3 \<notin> faulty fs3"
    "files fs3 (tempPath r3) = Some content" "shouldSave (mode r3) (Some 0)"
    "metaPathOf (finalPath r3) \<noteq> finalPath r3"
    using same2 same3 w1 f1 io2 p1 r0(3) meta
    by (simp_all add: sameRecording_def fs3_def shouldSave_def)
  from finalize_saves [OF pre3, of c te "Some Explicit"]
  obtain md r4 fs4 where s4: "finalize c te (Some 0) (Some Explicit) (r3, fs3) = (Inr md, (r4, fs4))"
    and sv: "saved_md md" "path_md md = finalPath r3" "files fs4 (finalPath r3) = Some content"
      "bytesWritten_md md = bytesWritten r3" "stopReason_md md = Explicit"
    by auto
  have run: "end_to_end c ident outDir idleLimit maxDur inactTimeout e t0 ts t1 t2 te fs0
         = (Inr md, (r4, fs4))"
    using s1 s2 s3 s4
    by (simp add: end_to_end_def r0_def [symmetric] out_def fs2_def resize_def fs3_def content_def)
  have bytes: "bytesWritten_md md = length content"
    using sv(4) b3 b2 b1 by (simp add: content_def out_def resize_def)
  have nonl: "nl \<notin> set header" "nl \<notin> set out" "nl \<notin> set resize"
    unfolding header_def out_def resize_def
    using json_header_no_nl [OF num] json_event_no_nl [OF num] by blast+
  have three: "count_list content nl = 3"
    unfolding content_def using nonl by (rule count_nl_3)
  show ?thesis
    apply (rule exI [of _ md], rule exI [of _ r4], rule exI [of _ fs4])
    apply (rule exI [of _ header], rule exI [of _ out], rule exI [of _ resize])
    using run sv nonl three bytes
    apply (simp add: content_def)
    apply (auto simp: header_def out_def resize_def)
    done
qed

theorem end_to_end_scenario_witness:
  "\<exists>md r fs content.
      end_to_end sample_platform ''ab'' ''/out'' 2 3600 600 None 900 1000 1500 2500 4000 empty_fs
        = (Inr md, (r, fs))
    \<and> saved_md md \<and> stopReason_md md = Explicit
    \<and> files fs (path_md md) = Some content
    \<and> count_list content nl = 3 \<and> bytesWritten_md md = length content"
proof -
  have h1: "\<forall>q. nl \<notin> set (numStr sample_platform q)"
    by (simp add: sample_platform_def)
  have h2: "tempPath (new_Recorder sample_platform 900 ''ab'' Always ''/out'' V2 2 3600 600)
              \<notin> faulty empty_fs"
    by (simp add: empty_fs_def)
  from end_to_end_scenario [OF h1 h2, of None 1000 1500 2500 4000]
  obtain md r fs header out resize where
    "end_to_end sample_platform ''ab'' ''/out'' 2 3600 600 None 900 1000 1500 2500 4000 empty_fs
        = (Inr md, (r, fs))"
    "saved_md md" "stopReason_md md = Explicit"
    "files fs (path_md md) = Some (header @ [nl] @ out @ [nl] @ resize @ [nl])"
    "count_list (header @ [nl] @ out @ [nl] @ resize @ [nl]) nl = 3"
    "bytesWritten_md md = length (header @ [nl] @ out @ [nl] @ resize @ [nl])"
    by blast
  then show ?thesis by blast
qed

section \<open>Finalizing all recordings\<close>



section \<open>Fan-out isolation\<close>



end
